theory Spec2Isabelle
  imports Main "HOL-Library.Char_ord" "HOL-Library.Sublist"
begin

section \<open>Strings and the library functions of \<open>cmd/xcode.go\<close>\<close>

text \<open>
  A Go string is a sequence of bytes; it is modelled as \<^typ>\<open>string\<close>, a list of 8-bit
  characters, ordered by their byte value. A Go \<open>error\<close> is modelled by its message;
  a value of the interface type \<open>error\<close> that may be \<open>nil\<close> is an \<open>error option\<close>.
\<close>

type_synonym error = string

text \<open>\<open>strings.HasSuffix(s, suffix)\<close>: \<open>len(s) >= len(suffix) && s[len(s)-len(suffix):] == suffix\<close>.\<close>

definition strings_HasSuffix :: "string \<Rightarrow> string \<Rightarrow> bool" where
  "strings_HasSuffix s suf =
     (length suf \<le> length s \<and> drop (length s - length suf) s = suf)"

subsection \<open>The fragment of package \<open>regexp\<close> that the file uses\<close>

text \<open>
  \<open>provProfileExportFileName\<close> compiles one pattern, a single bracket expression, and
  replaces its matches. The model covers that fragment of Go's \<open>regexp/syntax\<close>: a pattern
  that is one bracket expression made of literal characters and \<open>lo-hi\<close> ranges, optionally
  negated by a leading \<open>^\<close>. The parser follows \<open>parseClass\<close> under the Perl flags that
  \<open>regexp.Compile\<close> sets: \<open>]\<close> is literal as the first item, \<open>-\<close> is literal when it
  is first or stands directly before the closing \<open>]\<close>, a range with \<open>hi < lo\<close> is an error,
  and a pattern that ends before the closing \<open>]\<close> is an error. Everything outside the
  fragment (escapes, named classes, bytes outside ASCII, anything before or after the
  bracket expression) is rejected with \<open>ErrUnsupported\<close>, so the model accepts a pattern
  only if the library does.
\<close>

datatype regexp_error = ErrMissingBracket | ErrInvalidCharRange | ErrUnsupported

text \<open>A compiled character class: its sign (\<open>True\<close> when negated) and its ranges.\<close>

datatype Regexp = CharClass bool "(char \<times> char) list"

definition classChar :: "char \<Rightarrow> bool" where
  "classChar c = (c \<noteq> CHR 0x5C \<and> c < CHR 0x80)"

fun parseClassItems ::
  "bool \<Rightarrow> string \<Rightarrow> (char \<times> char) list \<Rightarrow> regexp_error + ((char \<times> char) list \<times> string)" where
  "parseClassItems first [] class = Inl ErrMissingBracket"
| "parseClassItems first (lo # t) class =
     (if lo = CHR '']'' \<and> \<not> first then Inr (class, t)
      else if \<not> classChar lo then Inl ErrUnsupported
      else if lo = CHR ''['' \<and> 2 \<le> length t \<and> hd t = CHR '':'' then Inl ErrUnsupported
      else (case t of
              d # hi # t' \<Rightarrow>
                if d = CHR ''-'' \<and> hi \<noteq> CHR '']'' then
                  (if \<not> classChar hi then Inl ErrUnsupported
                   else if hi < lo then Inl ErrInvalidCharRange
                   else parseClassItems False t' (class @ [(lo, hi)]))
                else parseClassItems False t (class @ [(lo, lo)])
            | _ \<Rightarrow> parseClassItems False t (class @ [(lo, lo)])))"

definition parseClass :: "string \<Rightarrow> regexp_error + (Regexp \<times> string)" where
  "parseClass s =
     (case s of
        [] \<Rightarrow> Inl ErrUnsupported
      | b # t \<Rightarrow>
          if b \<noteq> CHR ''['' then Inl ErrUnsupported
          else (let negated = (t \<noteq> [] \<and> hd t = CHR ''^'');
                    t1 = (if negated then tl t else t)
                in case parseClassItems True t1 [] of
                     Inl err \<Rightarrow> Inl err
                   | Inr (class, rest) \<Rightarrow> Inr (CharClass negated class, rest)))"

definition regexp_Compile :: "string \<Rightarrow> regexp_error + Regexp" where
  "regexp_Compile expr =
     (case parseClass expr of
        Inl err \<Rightarrow> Inl err
      | Inr (re, rest) \<Rightarrow> if rest = [] then Inr re else Inl ErrUnsupported)"

fun inRanges :: "(char \<times> char) list \<Rightarrow> char \<Rightarrow> bool" where
  "inRanges [] c = False"
| "inRanges ((lo, hi) # rs) c = ((lo \<le> c \<and> c \<le> hi) \<or> inRanges rs c)"

fun matchChar :: "Regexp \<Rightarrow> char \<Rightarrow> bool" where
  "matchChar (CharClass negated class) c = (negated \<noteq> inRanges class c)"

text \<open>
  \<open>(*Regexp).ReplaceAllString(src, repl)\<close> for a character class and a replacement
  without \<open>$\<close>: every match is one character, matches never overlap and none is empty, so
  each matching character is replaced by \<open>repl\<close> and every other character is copied.
  The library matches code points of the UTF-8 text, not bytes. For the class of this
  file the two agree: every code point outside ASCII (and every byte of invalid UTF-8,
  read as U+FFFD) lies outside the ranges, which are ASCII, so a negated class matches it
  and all its bytes, each at least \<open>0x80\<close>, are replaced.
\<close>

primrec ReplaceAllString :: "Regexp \<Rightarrow> string \<Rightarrow> string \<Rightarrow> string" where
  "ReplaceAllString re [] repl = []"
| "ReplaceAllString re (c # src) repl =
     (if matchChar re c then repl else [c]) @ ReplaceAllString re src repl"

section \<open>Provisioning profile descriptors\<close>

text \<open>
  \<open>provprofile.ProvisioningProfileFileInfoModel\<close> and the \<open>ProvisioningProfileModel\<close> it
  holds are declared in another package; the records have the fields the file reads.
  Any further field of either struct is an extension of its record (the \<open>more\<close> part
  of a record scheme), which the functions below never read.
\<close>

record ProvisioningProfileModel =
  Name :: string
  UUID :: string

record 'p ProvisioningProfileFileInfoModel =
  Path :: string
  ProvisioningProfileInfo :: "'p ProvisioningProfileModel_scheme"

section \<open>The export file name\<close>

definition provProfileExportFileName ::
  "('p, 'f) ProvisioningProfileFileInfoModel_scheme \<Rightarrow> string" where
  "provProfileExportFileName provProfileFileInfo =
     (case regexp_Compile ''[^A-Za-z0-9_.-]'' of
        Inl err \<Rightarrow> ''''
      | Inr replaceRexp \<Rightarrow>
          (let safeTitle = ReplaceAllString replaceRexp
                             (Name (ProvisioningProfileInfo provProfileFileInfo)) '''';
               extension = (if strings_HasSuffix (Path provProfileFileInfo) ''.provisionprofile''
                            then ''.provisionprofile'' else ''.mobileprovision'')
           in UUID (ProvisioningProfileInfo provProfileFileInfo) @ ''.'' @ safeTitle @ extension))"

text \<open>
  The description of the file name in the specification: the characters of the class
  \<open>[A-Za-z0-9_.-]\<close>, the display name with every other character removed, and the
  extension chosen from the suffix of the source path.
\<close>

definition safeChar :: "char \<Rightarrow> bool" where
  "safeChar c =
     ((CHR ''A'' \<le> c \<and> c \<le> CHR ''Z'') \<or> (CHR ''a'' \<le> c \<and> c \<le> CHR ''z'') \<or>
      (CHR ''0'' \<le> c \<and> c \<le> CHR ''9'') \<or> c = CHR ''_'' \<or> c = CHR ''.'' \<or> c = CHR ''-'')"

definition sanitizedName :: "string \<Rightarrow> string" where
  "sanitizedName name = filter safeChar name"

definition profileExtension :: "string \<Rightarrow> string" where
  "profileExtension path =
     (if suffix ''.provisionprofile'' path then ''.provisionprofile'' else ''.mobileprovision'')"

section \<open>Exporting the provisioning profiles\<close>

text \<open>
  \<open>cmdex.RunCommand(name, args...)\<close> runs an external program. What the program does to
  the machine and whether it fails are parameters of the model: a command takes the state
  of the machine \<open>'w\<close> and returns its error (\<open>None\<close> for \<open>nil\<close>) and the new state.
  \<open>filepath.Join\<close> is a parameter too. Terminal output (\<open>log\<close>, \<open>fmt.Println\<close>) is not
  modelled. Beside the returned error and the final state, the model returns the commands
  the function has run, in the order it ran them.
\<close>

type_synonym 'w RunCommand = "string \<Rightarrow> string list \<Rightarrow> 'w \<Rightarrow> error option \<times> 'w"

definition cpCommand ::
  "(string \<Rightarrow> string \<Rightarrow> string) \<Rightarrow> string \<Rightarrow> ('p, 'f) ProvisioningProfileFileInfoModel_scheme
     \<Rightarrow> string \<times> string list" where
  "cpCommand filepath_Join exportTargetDirPath aProvProfileFileInfo =
     (''cp'', [Path aProvProfileFileInfo,
               filepath_Join exportTargetDirPath (provProfileExportFileName aProvProfileFileInfo)])"

definition copyFailure :: "string \<Rightarrow> string \<Rightarrow> error \<Rightarrow> error" where
  "copyFailure from to err =
     ''Failed to copy Provisioning Profile (from: '' @ from @ '') (to: '' @ to @ ''), error: '' @ err"

fun exportProvisioningProfiles ::
  "(string \<Rightarrow> string \<Rightarrow> string) \<Rightarrow> 'w RunCommand
     \<Rightarrow> ('p, 'f) ProvisioningProfileFileInfoModel_scheme list \<Rightarrow> string \<Rightarrow> 'w
     \<Rightarrow> error option \<times> (string \<times> string list) list \<times> 'w" where
  "exportProvisioningProfiles filepath_Join RunCommand [] exportTargetDirPath w = (None, [], w)"
| "exportProvisioningProfiles filepath_Join RunCommand (aProvProfileFileInfo # provProfileFileInfos)
       exportTargetDirPath w =
     (let exportFileName = provProfileExportFileName aProvProfileFileInfo;
          exportPth = filepath_Join exportTargetDirPath exportFileName
      in case RunCommand ''cp'' [Path aProvProfileFileInfo, exportPth] w of
           (Some err, w') \<Rightarrow>
             (Some (copyFailure (Path aProvProfileFileInfo) exportPth err),
              [(''cp'', [Path aProvProfileFileInfo, exportPth])], w')
         | (None, w') \<Rightarrow>
             (case exportProvisioningProfiles filepath_Join RunCommand provProfileFileInfos
                     exportTargetDirPath w' of
                (result, commands, w'') \<Rightarrow>
                  (result, (''cp'', [Path aProvProfileFileInfo, exportPth]) # commands, w'')))"

text \<open>
  What a sequence of commands does when the commands are run one after the other, each
  on the state the one before has left: the error of each command, in order, and the
  final state.
\<close>

fun runCommands ::
  "'w RunCommand \<Rightarrow> (string \<times> string list) list \<Rightarrow> 'w \<Rightarrow> error option list \<times> 'w" where
  "runCommands RunCommand [] w = ([], w)"
| "runCommands RunCommand ((name, args) # commands) w =
     (case RunCommand name args w of
        (err, w') \<Rightarrow>
          (case runCommands RunCommand commands w' of
             (errs, w'') \<Rightarrow> (err # errs, w'')))"

text \<open>
  A small machine for concrete runs: the state is the list of paths that exist, \<open>cp\<close>
  fails when its source does not exist and creates its destination otherwise; paths are
  joined with a slash.
\<close>

definition slashJoin :: "string \<Rightarrow> string \<Rightarrow> string" where
  "slashJoin dir name = dir @ ''/'' @ name"

fun cpMachine :: "string list RunCommand" where
  "cpMachine name [from, to] files =
     (if name = ''cp'' \<and> from \<in> set files then (None, files @ [to])
      else (Some ''exit status 1'', files))"
| "cpMachine name args files = (Some ''exit status 64'', files)"

section \<open>The scan of an Xcode project\<close>

text \<open>
  \<open>xcode.CommandModel\<close> is declared in another package; the record has the two fields the
  file sets. The type of the code signing settings, also declared there, is the type
  variable \<open>'s\<close>.
\<close>

record CommandModel =
  ProjectFilePath :: string
  Scheme :: string

text \<open>
  \<open>scanXcodeProject\<close> calls functions of other files and packages. Each of them is called
  at most once in a run, so a run is determined by the two flags and by what each call
  answers, given its arguments: these are the fields of the record below. A call that
  returns a value and an error is a sum (\<open>Inl\<close> the error), except
  \<open>ScanCodeSigningSettings\<close>, whose output text is read also when it fails.
  Terminal output is not modelled; the error of \<open>WriteStringToFile\<close> decides only
  which lines are logged. The message handed to \<open>printXcodeScanFinishedWithError\<close> is
  the format string with the error already filled in. Beside the returned error, the
  model returns the calls the run has made.

  Modelled from the spec: \<open>printFinishedWithError\<close> is a function of package \<open>cmd\<close>
  outside this file. By the specification, build and extraction failures always
  propagate to the caller, so it returns an error, never \<open>nil\<close>: the field has the type
  of a function from the tool name and the formatted message to an error.
\<close>

record 's collaborators =
  paramXcodeProjectFilePath :: string
  paramXcodeScheme :: string
  initExportOutputDir :: "error + string"
  AskForPath :: "error + string"
  ScanSchemes :: "CommandModel \<Rightarrow> error + string list"
  SelectFromStrings :: "string \<Rightarrow> string list \<Rightarrow> error + string"
  ScanCodeSigningSettings :: "CommandModel \<Rightarrow> 's \<times> string \<times> error option"
  WriteStringToFile :: "string \<Rightarrow> string \<Rightarrow> error option"
  exportCodeSigningFiles :: "string \<Rightarrow> string \<Rightarrow> 's \<Rightarrow> error option"
  printFinishedWithError :: "string \<Rightarrow> string \<Rightarrow> error"

text \<open>
  The calls a run makes, in order, with their arguments. The call of
  \<open>WriteStringToFile\<close> is recorded with the error it returned too, since the run goes on
  after it whatever it returned.
\<close>

datatype 's call =
    CallInitExportOutputDir
  | CallAskForPath
  | CallScanSchemes CommandModel
  | CallSelectFromStrings string "string list"
  | CallScanCodeSigningSettings CommandModel
  | CallWriteStringToFile string string "error option"
  | CallExportCodeSigningFiles string string 's

definition printXcodeScanFinishedWithError :: "'s collaborators \<Rightarrow> string \<Rightarrow> error" where
  "printXcodeScanFinishedWithError env message = printFinishedWithError env ''Xcode'' message"

definition scanXcodeProject ::
  "(string \<Rightarrow> string \<Rightarrow> string) \<Rightarrow> 's collaborators \<Rightarrow> error option \<times> 's call list" where
  "scanXcodeProject filepath_Join env =
     (case initExportOutputDir env of
        Inl err \<Rightarrow>
          (Some (printXcodeScanFinishedWithError env
                   (''Failed to prepare Export directory: '' @ err)),
           [CallInitExportOutputDir])
      | Inr absExportOutputDirPath \<Rightarrow>
     (case (if paramXcodeProjectFilePath env = ''''
            then (AskForPath env, [CallInitExportOutputDir, CallAskForPath])
            else (Inr (paramXcodeProjectFilePath env), [CallInitExportOutputDir])) of
        (Inl err, calls1) \<Rightarrow>
          (Some (printXcodeScanFinishedWithError env (''Failed to read input: '' @ err)), calls1)
      | (Inr projectPath, calls1) \<Rightarrow>
     (let xcodeCmd = \<lparr>ProjectFilePath = projectPath, Scheme = ''''\<rparr>
      in case (if paramXcodeScheme env = ''''
               then (case ScanSchemes env xcodeCmd of
                       Inl err \<Rightarrow>
                         (Inl (''Failed to scan Schemes: '' @ err),
                          calls1 @ [CallScanSchemes xcodeCmd])
                     | Inr schemes \<Rightarrow>
                         (case SelectFromStrings env
                                 ''Select the Scheme you usually use in Xcode'' schemes of
                            Inl err \<Rightarrow> Inl (''Failed to select Scheme: '' @ err)
                          | Inr selectedScheme \<Rightarrow> Inr selectedScheme,
                          calls1 @ [CallScanSchemes xcodeCmd,
                                    CallSelectFromStrings
                                      ''Select the Scheme you usually use in Xcode'' schemes]))
               else (Inr (paramXcodeScheme env), calls1)) of
           (Inl message, calls2) \<Rightarrow>
             (Some (printXcodeScanFinishedWithError env message), calls2)
         | (Inr schemeToUse, calls2) \<Rightarrow>
     (let xcodeCmd = xcodeCmd\<lparr>Scheme := schemeToUse\<rparr>
      in case ScanCodeSigningSettings env xcodeCmd of
           (codeSigningSettings, xcodebuildOutput, err) \<Rightarrow>
     (let xcodebuildOutputFilePath = filepath_Join absExportOutputDirPath ''xcodebuild-output.log'';
          logWriteErr = WriteStringToFile env xcodebuildOutputFilePath xcodebuildOutput;
          calls3 = calls2 @ [CallScanCodeSigningSettings xcodeCmd,
                             CallWriteStringToFile xcodebuildOutputFilePath xcodebuildOutput
                               logWriteErr]
      in case err of
           Some err \<Rightarrow>
             (Some (printXcodeScanFinishedWithError env
                      (''Failed to detect code signing settings: '' @ err)),
              calls3)
         | None \<Rightarrow>
             (exportCodeSigningFiles env ''Xcode'' absExportOutputDirPath codeSigningSettings,
              calls3 @ [CallExportCodeSigningFiles ''Xcode'' absExportOutputDirPath
                          codeSigningSettings]))))))"

text \<open>
  \<open>fileutil.WriteStringToFile(pth, content)\<close> returns \<open>nil\<close> when it has written the
  file and an error when it has not. The files a run has written to disk with it are
  therefore the paths and contents of its calls that returned no error.
\<close>

fun filesWritten :: "'s call list \<Rightarrow> (string \<times> string) list" where
  "filesWritten [] = []"
| "filesWritten (CallWriteStringToFile pth content None # calls) =
     (pth, content) # filesWritten calls"
| "filesWritten (c # calls) = filesWritten calls"

text \<open>
  A concrete run: both flags are given, the export directory is \<open>/work/export\<close>, the
  log file can be written, the export succeeds, and \<open>ScanCodeSigningSettings\<close> answers
  as the argument says.
\<close>

definition sampleRun :: "string \<times> string \<times> error option \<Rightarrow> string collaborators" where
  "sampleRun answer =
     \<lparr>paramXcodeProjectFilePath = ''/work/App.xcodeproj'',
      paramXcodeScheme = ''App'',
      initExportOutputDir = Inr ''/work/export'',
      AskForPath = Inl ''no terminal'',
      ScanSchemes = (\<lambda>xcodeCmd. Inl ''no terminal''),
      SelectFromStrings = (\<lambda>title schemes. Inl ''no terminal''),
      ScanCodeSigningSettings = (\<lambda>xcodeCmd. answer),
      WriteStringToFile = (\<lambda>pth content. None),
      exportCodeSigningFiles = (\<lambda>toolName dir settings. None),
      printFinishedWithError = (\<lambda>toolName message. toolName @ '': '' @ message)\<rparr>"


section \<open>Properties of the export file name\<close>

subsection \<open>The pattern and the replacement\<close>

lemma compile_pattern:
  "regexp_Compile ''[^A-Za-z0-9_.-]'' =
     Inr (CharClass True [(CHR ''A'', CHR ''Z''), (CHR ''a'', CHR ''z''), (CHR ''0'', CHR ''9''),
                          (CHR ''_'', CHR ''_''), (CHR ''.'', CHR ''.''), (CHR ''-'', CHR ''-'')])"
  by (simp add: regexp_Compile_def parseClass_def classChar_def less_char_def less_eq_char_def)

lemma matchChar_pattern:
  "matchChar (CharClass True [(CHR ''A'', CHR ''Z''), (CHR ''a'', CHR ''z''), (CHR ''0'', CHR ''9''),
                              (CHR ''_'', CHR ''_''), (CHR ''.'', CHR ''.''), (CHR ''-'', CHR ''-'')]) c
     = (\<not> safeChar c)"
  by (auto simp add: safeChar_def)

lemma ReplaceAllString_pattern:
  "ReplaceAllString (CharClass True [(CHR ''A'', CHR ''Z''), (CHR ''a'', CHR ''z''),
                                     (CHR ''0'', CHR ''9''), (CHR ''_'', CHR ''_''),
                                     (CHR ''.'', CHR ''.''), (CHR ''-'', CHR ''-'')]) src ''''
     = sanitizedName src"
  by (induction src) (simp_all add: matchChar_pattern sanitizedName_def del: matchChar.simps)

lemma strings_HasSuffix_iff: "strings_HasSuffix s suf = suffix suf s"
proof
  assume "strings_HasSuffix s suf"
  then have "s = take (length s - length suf) s @ suf"
    by (metis append_take_drop_id strings_HasSuffix_def)
  then show "suffix suf s" by (metis suffixI)
next
  assume "suffix suf s"
  then obtain zs where "s = zs @ suf" by (auto simp: suffix_def)
  then show "strings_HasSuffix s suf" by (simp add: strings_HasSuffix_def)
qed

lemma fileName_eq:
  "provProfileExportFileName d =
     UUID (ProvisioningProfileInfo d) @ ''.'' @ sanitizedName (Name (ProvisioningProfileInfo d))
       @ profileExtension (Path d)"
  by (simp add: provProfileExportFileName_def compile_pattern ReplaceAllString_pattern
      profileExtension_def strings_HasSuffix_iff)

lemma not_suffix_mobileprovision: "\<not> suffix ''.provisionprofile'' (p @ ''.mobileprovision'')"
  by (simp add: suffix_def)

lemma extension_last:
  "last (xs @ profileExtension p) = (if suffix ''.provisionprofile'' p then CHR ''e'' else CHR ''n'')"
  by (simp add: profileExtension_def)

lemma takeWhile_dot:
  assumes "CHR ''.'' \<notin> set u"
  shows "takeWhile (\<lambda>c. c \<noteq> CHR ''.'') (u @ ''.'' @ r) = u"
  using assms by (induction u) auto

lemma distinct_dotfree:
  assumes "CHR ''.'' \<notin> set u1" "CHR ''.'' \<notin> set u2" "u1 @ ''.'' @ r1 = u2 @ ''.'' @ r2"
  shows "u1 = u2"
  using assms takeWhile_dot by metis

lemma same_name_cancel:
  assumes "u1 @ ''.'' @ s @ profileExtension p1 = u2 @ ''.'' @ s @ profileExtension p2"
  shows "u1 = u2"
proof -
  have l: "last ((u1 @ ''.'' @ s) @ profileExtension p1) = last ((u2 @ ''.'' @ s) @ profileExtension p2)"
    using assms by simp
  have "suffix ''.provisionprofile'' p1 = suffix ''.provisionprofile'' p2"
    using l unfolding extension_last by (simp split: if_splits)
  then have "profileExtension p1 = profileExtension p2"
    by (simp add: profileExtension_def)
  with assms have "(u1 @ ''.'' @ s) @ profileExtension p2 = (u2 @ ''.'' @ s) @ profileExtension p2"
    by simp
  then have "u1 @ (''.'' @ s) = u2 @ (''.'' @ s)"
    unfolding append_same_eq by simp
  then show ?thesis unfolding append_same_eq .
qed

subsection \<open>The claims about \<open>provProfileExportFileName\<close>\<close>

text \<open>
  C1, as stated: two descriptors with distinct UUIDs always get distinct export file
  names. This fails: the UUID and the sanitized name are joined by a dot, and both may
  contain dots. The UUIDs \<open>a\<close> and \<open>a.b\<close> with the names \<open>b.c\<close> and \<open>c\<close> give the
  same file name \<open>a.b.c.mobileprovision\<close>.
\<close>

theorem export_file_names_collide:
  "UUID (ProvisioningProfileInfo
      \<lparr>Path = ''/profiles/one.mobileprovision'',
       ProvisioningProfileInfo = \<lparr>Name = ''b.c'', UUID = ''a''\<rparr>\<rparr>)
     \<noteq> UUID (ProvisioningProfileInfo
      \<lparr>Path = ''/profiles/two.mobileprovision'',
       ProvisioningProfileInfo = \<lparr>Name = ''c'', UUID = ''a.b''\<rparr>\<rparr>)
   \<and> provProfileExportFileName
      \<lparr>Path = ''/profiles/one.mobileprovision'',
       ProvisioningProfileInfo = \<lparr>Name = ''b.c'', UUID = ''a''\<rparr>\<rparr>
     = provProfileExportFileName
      \<lparr>Path = ''/profiles/two.mobileprovision'',
       ProvisioningProfileInfo = \<lparr>Name = ''c'', UUID = ''a.b''\<rparr>\<rparr>"
  by (simp add: fileName_eq sanitizedName_def safeChar_def profileExtension_def suffix_def
      less_eq_char_def)

text \<open>
  C1, amended: two descriptors with distinct UUIDs get distinct export file names
  whenever neither UUID contains a dot, or the two UUIDs have the same length, or the two
  display names are identical. (UUIDs in the canonical form, 36 characters of hexadecimal
  digits and hyphens, satisfy the first two conditions.)
\<close>

theorem export_file_names_distinct:
  assumes "UUID (ProvisioningProfileInfo a) \<noteq> UUID (ProvisioningProfileInfo b)"
    and "(CHR ''.'' \<notin> set (UUID (ProvisioningProfileInfo a)) \<and>
          CHR ''.'' \<notin> set (UUID (ProvisioningProfileInfo b)))
         \<or> length (UUID (ProvisioningProfileInfo a)) = length (UUID (ProvisioningProfileInfo b))
         \<or> Name (ProvisioningProfileInfo a) = Name (ProvisioningProfileInfo b)"
  shows "provProfileExportFileName a \<noteq> provProfileExportFileName b"
proof
  assume eq: "provProfileExportFileName a = provProfileExportFileName b"
  from assms(2) consider
    (dots) "CHR ''.'' \<notin> set (UUID (ProvisioningProfileInfo a))"
           "CHR ''.'' \<notin> set (UUID (ProvisioningProfileInfo b))"
    | (len) "length (UUID (ProvisioningProfileInfo a)) = length (UUID (ProvisioningProfileInfo b))"
    | (name) "Name (ProvisioningProfileInfo a) = Name (ProvisioningProfileInfo b)"
    by blast
  then have "UUID (ProvisioningProfileInfo a) = UUID (ProvisioningProfileInfo b)"
  proof cases
    case dots
    from eq have "UUID (ProvisioningProfileInfo a) @ ''.'' @
        (sanitizedName (Name (ProvisioningProfileInfo a)) @ profileExtension (Path a)) =
      UUID (ProvisioningProfileInfo b) @ ''.'' @
        (sanitizedName (Name (ProvisioningProfileInfo b)) @ profileExtension (Path b))"
      by (simp add: fileName_eq)
    with dots show ?thesis by (rule distinct_dotfree)
  next
    case len
    with eq show ?thesis by (simp add: fileName_eq)
  next
    case name
    with eq show ?thesis
      using same_name_cancel [of "UUID (ProvisioningProfileInfo a)"
          "sanitizedName (Name (ProvisioningProfileInfo b))" "Path a"
          "UUID (ProvisioningProfileInfo b)" "Path b"]
      by (simp add: fileName_eq)
  qed
  with assms(1) show False by contradiction
qed

text \<open>
  The amended C1 at two descriptors with the same display name and the same source
  suffix, and UUIDs of different lengths of which one contains a dot: only the third
  condition holds.
\<close>

theorem export_file_names_distinct_witness:
  "''1111-AAAA'' \<noteq> ''2222.BB''
   \<and> Name \<lparr>Name = ''Wildcard Profile'', UUID = ''1111-AAAA''\<rparr>
       = Name \<lparr>Name = ''Wildcard Profile'', UUID = ''2222.BB''\<rparr>
   \<and> provProfileExportFileName
        \<lparr>Path = ''/profiles/one.mobileprovision'',
         ProvisioningProfileInfo = \<lparr>Name = ''Wildcard Profile'', UUID = ''1111-AAAA''\<rparr>\<rparr>
     \<noteq> provProfileExportFileName
        \<lparr>Path = ''/profiles/two.mobileprovision'',
         ProvisioningProfileInfo = \<lparr>Name = ''Wildcard Profile'', UUID = ''2222.BB''\<rparr>\<rparr>"
  using export_file_names_distinct
    [of "\<lparr>Path = ''/profiles/one.mobileprovision'',
          ProvisioningProfileInfo = \<lparr>Name = ''Wildcard Profile'', UUID = ''1111-AAAA''\<rparr>\<rparr>"
        "\<lparr>Path = ''/profiles/two.mobileprovision'',
          ProvisioningProfileInfo = \<lparr>Name = ''Wildcard Profile'', UUID = ''2222.BB''\<rparr>\<rparr>"]
  by simp

text \<open>
  C2: the export file name is the UUID, a dot, the display name with every character
  outside \<open>[A-Za-z0-9_.-]\<close> removed, and the extension taken from the suffix of the source
  path (\<open>.provisionprofile\<close> kept, otherwise \<open>.mobileprovision\<close>). The descriptor with
  UUID \<open>1111-AAAA\<close>, name \<open>Wildcard Profile\<close> and a source path that ends in
  \<open>.mobileprovision\<close> gets the name \<open>1111-AAAA.WildcardProfile.mobileprovision\<close>.
\<close>

theorem export_file_name_format:
  "provProfileExportFileName d =
     UUID (ProvisioningProfileInfo d) @ ''.''
       @ sanitizedName (Name (ProvisioningProfileInfo d)) @ profileExtension (Path d)
   \<and> provProfileExportFileName
        \<lparr>Path = p @ ''.mobileprovision'',
         ProvisioningProfileInfo = \<lparr>Name = ''Wildcard Profile'', UUID = ''1111-AAAA''\<rparr>\<rparr>
     = ''1111-AAAA.WildcardProfile.mobileprovision''"
  by (simp add: fileName_eq sanitizedName_def safeChar_def profileExtension_def
      not_suffix_mobileprovision less_eq_char_def)

text \<open>
  C6: the export file name is a function of the UUID, the display name and the source
  path alone: two descriptors that agree on the three get the same file name, whatever
  their other fields hold.
\<close>

theorem export_file_name_deterministic:
  assumes "UUID (ProvisioningProfileInfo a) = UUID (ProvisioningProfileInfo b)"
    and "Name (ProvisioningProfileInfo a) = Name (ProvisioningProfileInfo b)"
    and "Path a = Path b"
  shows "provProfileExportFileName a = provProfileExportFileName b"
  using assms by (simp add: fileName_eq)

text \<open>C6 at two descriptors that differ in a further field only.\<close>

theorem export_file_name_deterministic_witness:
  "\<lparr>Path = ''/profiles/one.mobileprovision'',
     ProvisioningProfileInfo = \<lparr>Name = ''Ad Hoc'', UUID = ''1111-AAAA'', \<dots> = True\<rparr>\<rparr>
     \<noteq> \<lparr>Path = ''/profiles/one.mobileprovision'',
         ProvisioningProfileInfo = \<lparr>Name = ''Ad Hoc'', UUID = ''1111-AAAA'', \<dots> = False\<rparr>\<rparr>
   \<and> provProfileExportFileName
        \<lparr>Path = ''/profiles/one.mobileprovision'',
         ProvisioningProfileInfo = \<lparr>Name = ''Ad Hoc'', UUID = ''1111-AAAA'', \<dots> = True\<rparr>\<rparr>
     = provProfileExportFileName
        \<lparr>Path = ''/profiles/one.mobileprovision'',
         ProvisioningProfileInfo = \<lparr>Name = ''Ad Hoc'', UUID = ''1111-AAAA'', \<dots> = False\<rparr>\<rparr>"
  using export_file_name_deterministic
    [of "\<lparr>Path = ''/profiles/one.mobileprovision'',
          ProvisioningProfileInfo = \<lparr>Name = ''Ad Hoc'', UUID = ''1111-AAAA'', \<dots> = True\<rparr>\<rparr>"
        "\<lparr>Path = ''/profiles/one.mobileprovision'',
          ProvisioningProfileInfo = \<lparr>Name = ''Ad Hoc'', UUID = ''1111-AAAA'', \<dots> = False\<rparr>\<rparr>"]
  by simp

text \<open>
  C8: the pattern \<open>[^A-Za-z0-9_.-]\<close> compiles, so the error branch of
  \<open>provProfileExportFileName\<close> is never taken: for every descriptor the function returns
  the name derived with the compiled pattern, and never the empty string.
\<close>

theorem export_file_name_never_empty:
  "(\<exists>replaceRexp. regexp_Compile ''[^A-Za-z0-9_.-]'' = Inr replaceRexp
      \<and> provProfileExportFileName d =
          UUID (ProvisioningProfileInfo d) @ ''.''
            @ ReplaceAllString replaceRexp (Name (ProvisioningProfileInfo d)) ''''
            @ (if strings_HasSuffix (Path d) ''.provisionprofile''
               then ''.provisionprofile'' else ''.mobileprovision''))
   \<and> provProfileExportFileName d \<noteq> ''''"
  by (simp add: provProfileExportFileName_def compile_pattern)

text \<open>
  C9: when the source path does not end in \<open>.provisionprofile\<close>, the export file name
  ends in \<open>.mobileprovision\<close>, whatever the suffix of the source path is.
\<close>

theorem other_suffix_exported_as_mobileprovision:
  assumes "\<not> strings_HasSuffix (Path d) ''.provisionprofile''"
  shows "strings_HasSuffix (provProfileExportFileName d) ''.mobileprovision''"
proof -
  from assms have "profileExtension (Path d) = ''.mobileprovision''"
    by (simp add: profileExtension_def strings_HasSuffix_iff)
  then have "provProfileExportFileName d =
      (UUID (ProvisioningProfileInfo d) @ ''.''
         @ sanitizedName (Name (ProvisioningProfileInfo d))) @ ''.mobileprovision''"
    by (simp add: fileName_eq)
  then show ?thesis
    unfolding strings_HasSuffix_iff by (metis suffixI)
qed

text \<open>C9 at a source path with another suffix and at a source path with none.\<close>

theorem other_suffix_exported_as_mobileprovision_witness:
  "\<not> strings_HasSuffix ''/profiles/dist.plist'' ''.provisionprofile''
   \<and> strings_HasSuffix
       (provProfileExportFileName
          \<lparr>Path = ''/profiles/dist.plist'',
           ProvisioningProfileInfo = \<lparr>Name = ''Ad Hoc'', UUID = ''1111-AAAA''\<rparr>\<rparr>)
       ''.mobileprovision''
   \<and> \<not> strings_HasSuffix ''dist'' ''.provisionprofile''
   \<and> strings_HasSuffix
       (provProfileExportFileName
          \<lparr>Path = ''dist'',
           ProvisioningProfileInfo = \<lparr>Name = ''Ad Hoc'', UUID = ''1111-AAAA''\<rparr>\<rparr>)
       ''.mobileprovision''"
  using other_suffix_exported_as_mobileprovision
    [of "\<lparr>Path = ''/profiles/dist.plist'',
          ProvisioningProfileInfo = \<lparr>Name = ''Ad Hoc'', UUID = ''1111-AAAA''\<rparr>\<rparr>"]
    other_suffix_exported_as_mobileprovision
    [of "\<lparr>Path = ''dist'',
          ProvisioningProfileInfo = \<lparr>Name = ''Ad Hoc'', UUID = ''1111-AAAA''\<rparr>\<rparr>"]
  by (simp add: strings_HasSuffix_def)

section \<open>Properties of \<open>exportProvisioningProfiles\<close>\<close>

lemma export_commands_prefix:
  "exportProvisioningProfiles J R infos dir w = (result, commands, w') \<Longrightarrow>
   prefix commands (map (cpCommand J dir) infos)"
  by (induction infos arbitrary: w result commands w')
     (auto simp add: Let_def cpCommand_def split: prod.splits option.splits)

lemma export_commands_all:
  "exportProvisioningProfiles J R infos dir w = (None, commands, w') \<Longrightarrow>
   commands = map (cpCommand J dir) infos"
  by (induction infos arbitrary: w commands w')
     (auto simp add: Let_def cpCommand_def split: prod.splits option.splits)

lemmas fileName_eval =
  fileName_eq sanitizedName_def safeChar_def profileExtension_def suffix_def less_eq_char_def

text \<open>
  C3, as stated: when the copy of one profile fails, the export goes on with the remaining
  profiles. This fails: the loop returns at the first failing copy. With two descriptors
  of which the first has lost its source file, the only command run is the \<open>cp\<close> of the
  first, and the second profile, whose copy succeeds when it is exported alone, is never
  copied.
\<close>

theorem export_stops_at_first_failed_copy:
  "exportProvisioningProfiles slashJoin cpMachine
     [\<lparr>Path = ''/profiles/gone.mobileprovision'',
       ProvisioningProfileInfo = \<lparr>Name = ''Ad Hoc'', UUID = ''1111-AAAA''\<rparr>\<rparr>,
      \<lparr>Path = ''/profiles/here.provisionprofile'',
       ProvisioningProfileInfo = \<lparr>Name = ''Mac Dev'', UUID = ''2222-BBBB''\<rparr>\<rparr>]
     ''/work/export'' [''/profiles/here.provisionprofile'']
   = (Some (copyFailure ''/profiles/gone.mobileprovision''
              ''/work/export/1111-AAAA.AdHoc.mobileprovision'' ''exit status 1''),
      [(''cp'', [''/profiles/gone.mobileprovision'',
                 ''/work/export/1111-AAAA.AdHoc.mobileprovision''])],
      [''/profiles/here.provisionprofile''])
   \<and> exportProvisioningProfiles slashJoin cpMachine
     [\<lparr>Path = ''/profiles/here.provisionprofile'',
       ProvisioningProfileInfo = \<lparr>Name = ''Mac Dev'', UUID = ''2222-BBBB''\<rparr>\<rparr>]
     ''/work/export'' [''/profiles/here.provisionprofile'']
   = (None,
      [(''cp'', [''/profiles/here.provisionprofile'',
                 ''/work/export/2222-BBBB.MacDev.provisionprofile''])],
      [''/profiles/here.provisionprofile'',
       ''/work/export/2222-BBBB.MacDev.provisionprofile''])"
  by (simp add: fileName_eval slashJoin_def Let_def)

text \<open>
  C3, amended: when the copy of one profile fails, after the copies of the profiles before
  it have succeeded, \<open>exportProvisioningProfiles\<close> returns an error that names the source
  path and the destination path of the failed copy, and stops: the commands it has run
  are the copies up to and including the failed one, and no later descriptor is copied.
\<close>

theorem failed_copy_reported_and_export_stopped:
  assumes "exportProvisioningProfiles J R copied dir w = (None, commands, w1)"
    and "R ''cp'' [Path d, J dir (provProfileExportFileName d)] w1 = (Some err, w2)"
  shows "exportProvisioningProfiles J R (copied @ d # rest) dir w =
           (Some (''Failed to copy Provisioning Profile (from: '' @ Path d @ '') (to: ''
                    @ J dir (provProfileExportFileName d) @ ''), error: '' @ err),
            commands @ [cpCommand J dir d], w2)"
  using assms
proof (induction copied arbitrary: w commands)
  case Nil
  then show ?case by (simp add: cpCommand_def copyFailure_def Let_def)
next
  case (Cons a copied)
  then show ?case
    by (auto simp add: Let_def cpCommand_def split: prod.splits option.splits)
qed

text \<open>
  The amended C3 at three descriptors: the first is copied, the copy of the second
  fails, the third is not copied.
\<close>

theorem failed_copy_reported_and_export_stopped_witness:
  "exportProvisioningProfiles slashJoin cpMachine
     [\<lparr>Path = ''/profiles/here.provisionprofile'',
       ProvisioningProfileInfo = \<lparr>Name = ''Mac Dev'', UUID = ''2222-BBBB''\<rparr>\<rparr>]
     ''/work/export'' [''/profiles/here.provisionprofile'', ''/profiles/last.mobileprovision'']
   = (None,
      [(''cp'', [''/profiles/here.provisionprofile'',
                 ''/work/export/2222-BBBB.MacDev.provisionprofile''])],
      [''/profiles/here.provisionprofile'', ''/profiles/last.mobileprovision'',
       ''/work/export/2222-BBBB.MacDev.provisionprofile''])
   \<and> cpMachine ''cp''
       [''/profiles/gone.mobileprovision'', ''/work/export/1111-AAAA.AdHoc.mobileprovision'']
       [''/profiles/here.provisionprofile'', ''/profiles/last.mobileprovision'',
        ''/work/export/2222-BBBB.MacDev.provisionprofile'']
     = (Some ''exit status 1'',
        [''/profiles/here.provisionprofile'', ''/profiles/last.mobileprovision'',
         ''/work/export/2222-BBBB.MacDev.provisionprofile''])
   \<and> exportProvisioningProfiles slashJoin cpMachine
     [\<lparr>Path = ''/profiles/here.provisionprofile'',
       ProvisioningProfileInfo = \<lparr>Name = ''Mac Dev'', UUID = ''2222-BBBB''\<rparr>\<rparr>,
      \<lparr>Path = ''/profiles/gone.mobileprovision'',
       ProvisioningProfileInfo = \<lparr>Name = ''Ad Hoc'', UUID = ''1111-AAAA''\<rparr>\<rparr>,
      \<lparr>Path = ''/profiles/last.mobileprovision'',
       ProvisioningProfileInfo = \<lparr>Name = ''Store'', UUID = ''3333-CCCC''\<rparr>\<rparr>]
     ''/work/export'' [''/profiles/here.provisionprofile'', ''/profiles/last.mobileprovision'']
   = (Some ''Failed to copy Provisioning Profile (from: /profiles/gone.mobileprovision) (to: /work/export/1111-AAAA.AdHoc.mobileprovision), error: exit status 1'',
      [(''cp'', [''/profiles/here.provisionprofile'',
                 ''/work/export/2222-BBBB.MacDev.provisionprofile'']),
       (''cp'', [''/profiles/gone.mobileprovision'',
                 ''/work/export/1111-AAAA.AdHoc.mobileprovision''])],
      [''/profiles/here.provisionprofile'', ''/profiles/last.mobileprovision'',
       ''/work/export/2222-BBBB.MacDev.provisionprofile''])"
proof -
  have copied: "exportProvisioningProfiles slashJoin cpMachine
     [\<lparr>Path = ''/profiles/here.provisionprofile'',
       ProvisioningProfileInfo = \<lparr>Name = ''Mac Dev'', UUID = ''2222-BBBB''\<rparr>\<rparr>]
     ''/work/export'' [''/profiles/here.provisionprofile'', ''/profiles/last.mobileprovision'']
   = (None,
      [(''cp'', [''/profiles/here.provisionprofile'',
                 ''/work/export/2222-BBBB.MacDev.provisionprofile''])],
      [''/profiles/here.provisionprofile'', ''/profiles/last.mobileprovision'',
       ''/work/export/2222-BBBB.MacDev.provisionprofile''])"
    by (simp add: fileName_eval slashJoin_def Let_def)
  have failed: "cpMachine ''cp''
       [Path \<lparr>Path = ''/profiles/gone.mobileprovision'',
               ProvisioningProfileInfo = \<lparr>Name = ''Ad Hoc'', UUID = ''1111-AAAA''\<rparr>\<rparr>,
        slashJoin ''/work/export''
          (provProfileExportFileName
             \<lparr>Path = ''/profiles/gone.mobileprovision'',
              ProvisioningProfileInfo = \<lparr>Name = ''Ad Hoc'', UUID = ''1111-AAAA''\<rparr>\<rparr>)]
       [''/profiles/here.provisionprofile'', ''/profiles/last.mobileprovision'',
        ''/work/export/2222-BBBB.MacDev.provisionprofile'']
     = (Some ''exit status 1'',
        [''/profiles/here.provisionprofile'', ''/profiles/last.mobileprovision'',
         ''/work/export/2222-BBBB.MacDev.provisionprofile''])"
    by (simp add: fileName_eval slashJoin_def Let_def)
  show ?thesis
    using failed_copy_reported_and_export_stopped [OF copied failed,
        of "[\<lparr>Path = ''/profiles/last.mobileprovision'',
              ProvisioningProfileInfo = \<lparr>Name = ''Store'', UUID = ''3333-CCCC''\<rparr>\<rparr>]"]
      copied failed
    by (simp add: cpCommand_def fileName_eval slashJoin_def Let_def)
qed

lemma export_final_state:
  "exportProvisioningProfiles J R infos dir w = (result, commands, w') \<Longrightarrow>
   snd (runCommands R commands w) = w'"
  by (induction infos arbitrary: w result commands w')
     (auto simp add: Let_def split_beta split: prod.splits option.splits)

lemma export_result:
  "exportProvisioningProfiles J R infos dir w = (result, commands, w') \<Longrightarrow>
   (result = None) = (\<forall>e \<in> set (fst (runCommands R commands w)). e = None)"
  by (induction infos arbitrary: w result commands w')
     (auto simp add: Let_def split_beta split: prod.splits option.splits)

text \<open>
  C10: \<open>exportProvisioningProfiles\<close> copies the files in the order of its input. The
  commands it runs are the \<open>cp\<close> commands of its input descriptors, in the order of the
  input: always an initial part of that sequence, and all of it when no error is
  returned. The state it leaves is the state that running these commands one after the
  other leaves, and it returns no error exactly when none of them failed. On an empty
  input it runs no command, leaves the state as it is and returns no error.
\<close>

theorem export_copies_in_input_order:
  "exportProvisioningProfiles J R [] dir w = (None, [], w)
   \<and> (\<exists>result commands w' errs.
         exportProvisioningProfiles J R infos dir w = (result, commands, w')
         \<and> prefix commands (map (cpCommand J dir) infos)
         \<and> (result = None \<longrightarrow> commands = map (cpCommand J dir) infos)
         \<and> runCommands R commands w = (errs, w')
         \<and> (result = None) = (\<forall>e \<in> set errs. e = None))"
proof -
  obtain result commands w' where
    run: "exportProvisioningProfiles J R infos dir w = (result, commands, w')"
    by (cases "exportProvisioningProfiles J R infos dir w") auto
  obtain errs w'' where effect: "runCommands R commands w = (errs, w'')"
    by (cases "runCommands R commands w") auto
  have "prefix commands (map (cpCommand J dir) infos)"
    using run by (rule export_commands_prefix)
  moreover have "result = None \<longrightarrow> commands = map (cpCommand J dir) infos"
    using run by (auto dest: export_commands_all)
  moreover have "w'' = w'"
    using export_final_state [OF run] effect by simp
  moreover have "(result = None) = (\<forall>e \<in> set errs. e = None)"
    using export_result [OF run] effect by simp
  ultimately show ?thesis using run effect by auto
qed

text \<open>
  C10 at two descriptors whose copies both succeed: the two commands, in input order,
  and the state they leave.
\<close>

theorem export_copies_in_input_order_witness:
  "exportProvisioningProfiles slashJoin cpMachine
     [\<lparr>Path = ''/profiles/here.provisionprofile'',
       ProvisioningProfileInfo = \<lparr>Name = ''Mac Dev'', UUID = ''2222-BBBB''\<rparr>\<rparr>,
      \<lparr>Path = ''/profiles/last.mobileprovision'',
       ProvisioningProfileInfo = \<lparr>Name = ''Store'', UUID = ''3333-CCCC''\<rparr>\<rparr>]
     ''/work/export'' [''/profiles/here.provisionprofile'', ''/profiles/last.mobileprovision'']
   = (None,
      [(''cp'', [''/profiles/here.provisionprofile'',
                 ''/work/export/2222-BBBB.MacDev.provisionprofile'']),
       (''cp'', [''/profiles/last.mobileprovision'',
                 ''/work/export/3333-CCCC.Store.mobileprovision''])],
      [''/profiles/here.provisionprofile'', ''/profiles/last.mobileprovision'',
       ''/work/export/2222-BBBB.MacDev.provisionprofile'',
       ''/work/export/3333-CCCC.Store.mobileprovision''])
   \<and> runCommands cpMachine
      [(''cp'', [''/profiles/here.provisionprofile'',
                 ''/work/export/2222-BBBB.MacDev.provisionprofile'']),
       (''cp'', [''/profiles/last.mobileprovision'',
                 ''/work/export/3333-CCCC.Store.mobileprovision''])]
      [''/profiles/here.provisionprofile'', ''/profiles/last.mobileprovision'']
   = ([None, None],
      [''/profiles/here.provisionprofile'', ''/profiles/last.mobileprovision'',
       ''/work/export/2222-BBBB.MacDev.provisionprofile'',
       ''/work/export/3333-CCCC.Store.mobileprovision''])"
  using export_copies_in_input_order [of slashJoin cpMachine "''/work/export''"
      "[''/profiles/here.provisionprofile'', ''/profiles/last.mobileprovision'']"
      "[\<lparr>Path = ''/profiles/here.provisionprofile'',
         ProvisioningProfileInfo = \<lparr>Name = ''Mac Dev'', UUID = ''2222-BBBB''\<rparr>\<rparr>,
        \<lparr>Path = ''/profiles/last.mobileprovision'',
         ProvisioningProfileInfo = \<lparr>Name = ''Store'', UUID = ''3333-CCCC''\<rparr>\<rparr>]"]
  by (simp add: cpCommand_def fileName_eval slashJoin_def Let_def)

section \<open>Properties of \<open>scanXcodeProject\<close>\<close>

text \<open>
  A run reaches the build step when it calls \<open>ScanCodeSigningSettings\<close>; the argument of
  the call is the command model built from the project path and the scheme. From there
  on every run has the same shape: the calls before the build step write no file and
  export nothing, the scan is followed by the write of the log file, and the export
  follows only when the scan returned no error.
\<close>

lemma filesWritten_append:
  "filesWritten (calls @ calls') = filesWritten calls @ filesWritten calls'"
  by (induction calls rule: filesWritten.induct) simp_all

lemma scan_after_build:
  assumes "CallScanCodeSigningSettings xcodeCmd \<in> set (snd (scanXcodeProject J env))"
  shows "\<exists>dir calls. initExportOutputDir env = Inr dir
     \<and> filesWritten calls = []
     \<and> (\<forall>toolName d s. CallExportCodeSigningFiles toolName d s \<notin> set calls)
     \<and> scanXcodeProject J env =
         (case snd (snd (ScanCodeSigningSettings env xcodeCmd)) of
            Some err \<Rightarrow> Some (printXcodeScanFinishedWithError env
                              (''Failed to detect code signing settings: '' @ err))
          | None \<Rightarrow> exportCodeSigningFiles env ''Xcode'' dir
                      (fst (ScanCodeSigningSettings env xcodeCmd)),
          calls @ [CallScanCodeSigningSettings xcodeCmd,
                   CallWriteStringToFile (J dir ''xcodebuild-output.log'')
                     (fst (snd (ScanCodeSigningSettings env xcodeCmd)))
                     (WriteStringToFile env (J dir ''xcodebuild-output.log'')
                        (fst (snd (ScanCodeSigningSettings env xcodeCmd))))]
            @ (case snd (snd (ScanCodeSigningSettings env xcodeCmd)) of
                 Some err \<Rightarrow> []
               | None \<Rightarrow> [CallExportCodeSigningFiles ''Xcode'' dir
                             (fst (ScanCodeSigningSettings env xcodeCmd))]))"
  using assms unfolding scanXcodeProject_def
  by (auto simp add: Let_def split: sum.splits if_splits prod.splits option.splits)




text \<open>
  C5, as stated: when the build process cannot be launched, no transcript file is
  written. This fails: the file is written before the error of
  \<open>ScanCodeSigningSettings\<close> is looked at. In the run below the build tool is missing,
  the output text is empty, and the run still writes \<open>xcodebuild-output.log\<close>.
\<close>

theorem launch_failure_writes_transcript:
  "scanXcodeProject slashJoin
     (sampleRun ('''', '''', Some ''exec: xcodebuild: executable file not found in $PATH''))
   = (Some ''Xcode: Failed to detect code signing settings: exec: xcodebuild: executable file not found in $PATH'',
      [CallInitExportOutputDir,
       CallScanCodeSigningSettings
         \<lparr>ProjectFilePath = ''/work/App.xcodeproj'', Scheme = ''App''\<rparr>,
       CallWriteStringToFile ''/work/export/xcodebuild-output.log'' '''' None])
   \<and> filesWritten (snd (scanXcodeProject slashJoin
        (sampleRun ('''', '''', Some ''exec: xcodebuild: executable file not found in $PATH''))))
     = [(''/work/export/xcodebuild-output.log'', '''')]"
  by (simp add: scanXcodeProject_def sampleRun_def slashJoin_def
      printXcodeScanFinishedWithError_def)

text \<open>
  C5, amended: when \<open>ScanCodeSigningSettings\<close> returns an error, as it does when the
  build process cannot be launched, the run still calls \<open>WriteStringToFile\<close> with the
  file \<open>xcodebuild-output.log\<close> in the export output directory and the output text the
  scan returned (empty if there is none), so that this file is written whenever the call
  returns no error. Then the run returns the error: the write is its last call, and no
  export is attempted.
\<close>

theorem scan_failure_writes_transcript_then_returns:
  assumes "CallScanCodeSigningSettings xcodeCmd \<in> set (snd (scanXcodeProject J env))"
    and "ScanCodeSigningSettings env xcodeCmd = (settings, xcodebuildOutput, Some err)"
  shows "\<exists>dir calls. initExportOutputDir env = Inr dir
     \<and> scanXcodeProject J env =
         (Some (printXcodeScanFinishedWithError env
                  (''Failed to detect code signing settings: '' @ err)),
          calls @ [CallScanCodeSigningSettings xcodeCmd,
                   CallWriteStringToFile (J dir ''xcodebuild-output.log'') xcodebuildOutput
                     (WriteStringToFile env (J dir ''xcodebuild-output.log'') xcodebuildOutput)])
     \<and> filesWritten (snd (scanXcodeProject J env)) =
          (if WriteStringToFile env (J dir ''xcodebuild-output.log'') xcodebuildOutput = None
           then [(J dir ''xcodebuild-output.log'', xcodebuildOutput)] else [])
     \<and> (\<forall>toolName d s.
           CallExportCodeSigningFiles toolName d s \<notin> set (snd (scanXcodeProject J env)))"
proof -
  from scan_after_build [OF assms(1)] assms(2) obtain dir calls where
    dir: "initExportOutputDir env = Inr dir"
    and before: "filesWritten calls = []"
      "\<forall>toolName d s. CallExportCodeSigningFiles toolName d s \<notin> set calls"
    and run: "scanXcodeProject J env =
         (Some (printXcodeScanFinishedWithError env
                  (''Failed to detect code signing settings: '' @ err)),
          calls @ [CallScanCodeSigningSettings xcodeCmd,
                   CallWriteStringToFile (J dir ''xcodebuild-output.log'') xcodebuildOutput
                     (WriteStringToFile env (J dir ''xcodebuild-output.log'') xcodebuildOutput)])"
    by fastforce
  have written: "filesWritten (snd (scanXcodeProject J env)) =
          (if WriteStringToFile env (J dir ''xcodebuild-output.log'') xcodebuildOutput = None
           then [(J dir ''xcodebuild-output.log'', xcodebuildOutput)] else [])"
    unfolding run
    by (cases "WriteStringToFile env (J dir ''xcodebuild-output.log'') xcodebuildOutput")
       (simp_all add: filesWritten_append before)
  have no_export: "\<forall>toolName d s.
      CallExportCodeSigningFiles toolName d s \<notin> set (snd (scanXcodeProject J env))"
    unfolding run using before(2) by simp
  from dir run written no_export show ?thesis by blast
qed

text \<open>The amended C5 at a run in which the build tool is missing.\<close>

theorem scan_failure_writes_transcript_then_returns_witness:
  "CallScanCodeSigningSettings \<lparr>ProjectFilePath = ''/work/App.xcodeproj'', Scheme = ''App''\<rparr>
     \<in> set (snd (scanXcodeProject slashJoin
                (sampleRun ('''', '''', Some ''exec: xcodebuild: not found''))))
   \<and> ScanCodeSigningSettings (sampleRun ('''', '''', Some ''exec: xcodebuild: not found''))
       \<lparr>ProjectFilePath = ''/work/App.xcodeproj'', Scheme = ''App''\<rparr>
     = ('''', '''', Some ''exec: xcodebuild: not found'')
   \<and> (\<exists>calls. scanXcodeProject slashJoin
                  (sampleRun ('''', '''', Some ''exec: xcodebuild: not found''))
        = (Some ''Xcode: Failed to detect code signing settings: exec: xcodebuild: not found'',
           calls @ [CallScanCodeSigningSettings
                      \<lparr>ProjectFilePath = ''/work/App.xcodeproj'', Scheme = ''App''\<rparr>,
                    CallWriteStringToFile ''/work/export/xcodebuild-output.log'' '''' None]))
   \<and> filesWritten (snd (scanXcodeProject slashJoin
                (sampleRun ('''', '''', Some ''exec: xcodebuild: not found''))))
     = [(''/work/export/xcodebuild-output.log'', '''')]
   \<and> (\<forall>toolName d s. CallExportCodeSigningFiles toolName d s
         \<notin> set (snd (scanXcodeProject slashJoin
                (sampleRun ('''', '''', Some ''exec: xcodebuild: not found'')))))"
proof -
  have reached: "CallScanCodeSigningSettings
       \<lparr>ProjectFilePath = ''/work/App.xcodeproj'', Scheme = ''App''\<rparr>
     \<in> set (snd (scanXcodeProject slashJoin
                (sampleRun ('''', '''', Some ''exec: xcodebuild: not found''))))"
    by (simp add: scanXcodeProject_def sampleRun_def)
  have answer: "ScanCodeSigningSettings
       (sampleRun ('''', '''', Some ''exec: xcodebuild: not found''))
       \<lparr>ProjectFilePath = ''/work/App.xcodeproj'', Scheme = ''App''\<rparr>
     = ('''', '''', Some ''exec: xcodebuild: not found'')"
    by (simp add: sampleRun_def)
  show ?thesis
    using scan_failure_writes_transcript_then_returns [OF reached answer] reached answer
    by (simp add: sampleRun_def slashJoin_def printXcodeScanFinishedWithError_def)
qed

text \<open>
  C7: whenever \<open>ScanCodeSigningSettings\<close> returns an error, \<open>scanXcodeProject\<close> returns
  an error to its caller, the one \<open>printXcodeScanFinishedWithError\<close> makes of the message
  \<open>Failed to detect code signing settings\<close> and the error of the scan, and
  \<open>exportCodeSigningFiles\<close> is not called.
\<close>

theorem scan_failure_propagates_without_export:
  assumes "CallScanCodeSigningSettings xcodeCmd \<in> set (snd (scanXcodeProject J env))"
    and "snd (snd (ScanCodeSigningSettings env xcodeCmd)) = Some err"
  shows "fst (scanXcodeProject J env) =
           Some (printXcodeScanFinishedWithError env
                   (''Failed to detect code signing settings: '' @ err))
         \<and> (\<forall>toolName dir settings.
               CallExportCodeSigningFiles toolName dir settings
                 \<notin> set (snd (scanXcodeProject J env)))"
  using assms unfolding scanXcodeProject_def
  by (auto simp add: Let_def split: sum.splits if_splits prod.splits option.splits)

text \<open>C7 at a run whose build fails.\<close>

theorem scan_failure_propagates_without_export_witness:
  "CallScanCodeSigningSettings \<lparr>ProjectFilePath = ''/work/App.xcodeproj'', Scheme = ''App''\<rparr>
     \<in> set (snd (scanXcodeProject slashJoin
                (sampleRun ('''', ''** ARCHIVE FAILED **'', Some ''exit status 65''))))
   \<and> snd (snd (ScanCodeSigningSettings
                 (sampleRun ('''', ''** ARCHIVE FAILED **'', Some ''exit status 65''))
                 \<lparr>ProjectFilePath = ''/work/App.xcodeproj'', Scheme = ''App''\<rparr>))
     = Some ''exit status 65''
   \<and> fst (scanXcodeProject slashJoin
            (sampleRun ('''', ''** ARCHIVE FAILED **'', Some ''exit status 65'')))
     = Some ''Xcode: Failed to detect code signing settings: exit status 65''
   \<and> CallExportCodeSigningFiles ''Xcode'' ''/work/export'' ''''
     \<notin> set (snd (scanXcodeProject slashJoin
                (sampleRun ('''', ''** ARCHIVE FAILED **'', Some ''exit status 65''))))"
proof -
  have reached: "CallScanCodeSigningSettings
       \<lparr>ProjectFilePath = ''/work/App.xcodeproj'', Scheme = ''App''\<rparr>
     \<in> set (snd (scanXcodeProject slashJoin
                (sampleRun ('''', ''** ARCHIVE FAILED **'', Some ''exit status 65''))))"
    by (simp add: scanXcodeProject_def sampleRun_def)
  have answer: "snd (snd (ScanCodeSigningSettings
                 (sampleRun ('''', ''** ARCHIVE FAILED **'', Some ''exit status 65''))
                 \<lparr>ProjectFilePath = ''/work/App.xcodeproj'', Scheme = ''App''\<rparr>))
     = Some ''exit status 65''"
    by (simp add: sampleRun_def)
  show ?thesis
    using scan_failure_propagates_without_export [OF reached answer] reached answer
    by (simp add: sampleRun_def printXcodeScanFinishedWithError_def)
qed

end
